theory Spec2Isabelle
  imports Main "HOL-Library.AList" "HOL-Library.Sublist"
begin

section \<open>Python strings\<close>

text \<open>
  A Python \<open>str\<close> is a sequence of code points. The model uses \<^typ>\<open>string\<close>, whose
  characters are the code points below 256 (Latin-1); \<open>len\<close> is \<^const>\<open>length\<close>. On
  that range \<open>str.isspace\<close>, \<open>str.strip\<close> and \<open>str.lower\<close> are exactly the functions
  below, and \<open>lower\<close> does not leave the range.
\<close>

definition isspace :: "char \<Rightarrow> bool" where
  "isspace c =
     (let n = (of_char c :: nat)
      in (9 \<le> n \<and> n \<le> 13) \<or> (28 \<le> n \<and> n \<le> 32) \<or> n = 133 \<or> n = 160)"

definition strip :: "string \<Rightarrow> string" where
  "strip s = rev (dropWhile isspace (rev (dropWhile isspace s)))"



text \<open>\<open>s.startswith(k)\<close> and the substring test \<open>k in s\<close>.\<close>

fun startswith :: "string \<Rightarrow> string \<Rightarrow> bool" where
  "startswith s [] = True"
| "startswith [] (k # ks) = False"
| "startswith (c # s) (k # ks) = (c = k \<and> startswith s ks)"

fun py_in :: "string \<Rightarrow> string \<Rightarrow> bool" where
  "py_in k [] = (k = [])"
| "py_in k (c # s) = (startswith (c # s) k \<or> py_in k s)"

section \<open>utils/validators.py: QueryValidator\<close>

text \<open>
  \<open>validate_query\<close>: the emptiness test looks at the stripped string, the two length
  tests at \<open>len(query)\<close>, the string as it was passed.
\<close>

definition validate_query :: "string \<Rightarrow> bool \<times> string" where
  "validate_query query =
     (if query = [] \<or> strip query = [] then (False, ''Query cannot be empty'')
      else if length query < 3 then (False, ''Query too short (minimum 3 characters)'')
      else if length query > 500 then (False, ''Query too long (maximum 500 characters)'')
      else (True, ''Valid query''))"





section \<open>Python values\<close>

text \<open>
  A Python float is a double: \<open>Finite m e\<close> is \<open>m * 2^e\<close>; the literal \<open>3.14\<close> is
  \<open>Finite 7070651414971679 (-51)\<close>. The code below only passes floats on.
\<close>

datatype pyfloat = Finite int int | PosInf | NegInf | NaN

text \<open>
  The values held in the dicts of the session (\<open>Dict[str, Any]\<close>). \<open>PObject s\<close> is any
  other object, \<open>s\<close> being what \<open>str\<close> returns for it. A dict is an association list in
  insertion order; \<open>d[k] = v\<close> is \<^const>\<open>AList.update\<close>, \<open>d.get(k)\<close> is \<^const>\<open>map_of\<close>.
\<close>

datatype pyval =
    PNone
  | PBool bool
  | PInt int
  | PFloat pyfloat
  | PStr string
  | PList "pyval list"
  | PDict "(string \<times> pyval) list"
  | PObject string

type_synonym pydict = "(string \<times> pyval) list"

text \<open>Truth value of an object, as \<open>or\<close> and \<open>not\<close> test it.\<close>

fun truthy :: "pyval \<Rightarrow> bool" where
  "truthy PNone = False"
| "truthy (PBool b) = b"
| "truthy (PInt i) = (i \<noteq> 0)"
| "truthy (PFloat (Finite m e)) = (m \<noteq> 0)"
| "truthy (PFloat f) = True"
| "truthy (PStr s) = (s \<noteq> [])"
| "truthy (PList xs) = (xs \<noteq> [])"
| "truthy (PDict d) = (d \<noteq> [])"
| "truthy (PObject s) = True"

text \<open>
  pandas objects: a frame has column labels and rows, a series a name and values.
  A cell of a frame holds its value itself (\<open>Val\<close>, the numeric and other fixed
  dtypes) or, in a column of dtype \<open>object\<close>, a reference to a Python object (\<open>Ref\<close>,
  an address in the object store of the world below).
\<close>

datatype cell = Val pyval | Ref nat

record dataframe =
  columns :: "pyval list"
  rows :: "cell list list"

record series =
  series_name :: pyval
  series_values :: "pyval list"

text \<open>
  What a query can return (\<open>result: Any\<close>). \<open>ROther s\<close> is an object of any other class
  (\<open>None\<close>, a list, a numpy integer, ...), \<open>s\<close> being what \<open>str\<close> returns for it.
\<close>

datatype pyresult =
    RDataFrame dataframe
  | RSeries series
  | RBool bool
  | RInt int
  | RFloat pyfloat
  | RStr string
  | ROther string

section \<open>utils/session\_manager.py\<close>

record entry =
  timestamp :: string

record cleaning_entry = entry +
  action :: string
  details :: string

record query_entry = entry +
  query :: string
  result :: pyresult
  explanation :: string

record chart_entry = entry +
  chart :: pyval
  chart_type :: string
  title :: string

record insight_entry = entry +
  insight_text :: string
  category :: string

text \<open>
  \<open>SessionState\<close>. The three dataframe slots hold references to pandas objects
  (addresses in the frame store of the world below), \<open>None\<close> at first.
\<close>

record SessionState =
  raw_dataframe :: "nat option"
  cleaned_dataframe :: "nat option"
  current_dataframe :: "nat option"
  dataset_metadata :: pydict
  cleaning_log :: "cleaning_entry list"
  query_history :: "query_entry list"
  generated_charts :: "chart_entry list"
  insights :: "insight_entry list"
  agent_status :: "(string \<times> bool) list"
  uploaded_file_info :: pydict
  dataset_preview :: pydict
  cleaning_summary :: pydict
  last_query_result :: pydict
  chart_payloads :: "pydict list"
  report_status :: pydict

definition SessionState_new :: SessionState where
  "SessionState_new =
     \<lparr>raw_dataframe = None, cleaned_dataframe = None, current_dataframe = None,
      dataset_metadata = [], cleaning_log = [], query_history = [],
      generated_charts = [], insights = [],
      agent_status = [(''input_complete'', False), (''cleaning_complete'', False),
                      (''nlq_ready'', False)],
      uploaded_file_info = [], dataset_preview = [], cleaning_summary = [],
      last_query_result = [], chart_payloads = [], report_status = []\<rparr>"

text \<open>
  The objects of the process: pandas frames and \<open>SessionState\<close> objects live at
  addresses, handed out in order and never reused; \<open>sessions\<close> is the class attribute
  \<open>SessionManager._sessions\<close>, from session id to the address of a state object.
  The objects that exist are those at the addresses below \<open>next_frame\<close> and
  \<open>next_state\<close>. \<open>objects\<close> holds the Python objects that cells of dtype \<open>object\<close>
  refer to. A \<open>SessionManager\<close> instance holds its id and a reference to a state
  object.
\<close>

record world =
  frames :: "nat \<Rightarrow> dataframe"
  next_frame :: nat
  objects :: "nat \<Rightarrow> pyval"
  states :: "nat \<Rightarrow> SessionState"
  next_state :: nat
  sessions :: "string \<rightharpoonup> nat"

record SessionManager =
  session_id :: string
  state :: nat

text \<open>The process at start: no object yet, \<open>_sessions = {}\<close>.\<close>

definition initial_world :: world where
  "initial_world =
     \<lparr>frames = (\<lambda>a. \<lparr>columns = [], rows = []\<rparr>), next_frame = 0,
      objects = (\<lambda>a. PNone),
      states = (\<lambda>a. SessionState_new), next_state = 0,
      sessions = Map.empty\<rparr>"

text \<open>\<open>SessionState()\<close>: a new object at the next address.\<close>

definition new_state :: "world \<Rightarrow> nat \<times> world" where
  "new_state w =
     (next_state w,
      w\<lparr>states := (states w)(next_state w := SessionState_new),
        next_state := Suc (next_state w)\<rparr>)"

text \<open>
  \<open>df.copy()\<close> (pandas, \<open>deep=True\<close> by default): a new frame object with the labels
  and the cells of \<open>df\<close>. The data are copied, not the Python objects in it: a cell
  that refers to an object is copied as the same reference, and no object is created.
\<close>

definition df_copy :: "nat \<Rightarrow> world \<Rightarrow> nat \<times> world" where
  "df_copy df w =
     (next_frame w,
      w\<lparr>frames := (frames w)(next_frame w := frames w df),
        next_frame := Suc (next_frame w)\<rparr>)"

text \<open>An assignment to, or in-place change of, the object \<open>self.state\<close> refers to.\<close>

definition on_state :: "SessionManager \<Rightarrow> (SessionState \<Rightarrow> SessionState) \<Rightarrow> world \<Rightarrow> world" where
  "on_state self f w = w\<lparr>states := (states w)(state self := f (states w (state self)))\<rparr>"

text \<open>\<open>__init__\<close>: registers a fresh state when the id is not in \<open>_sessions\<close>, then binds.\<close>

definition init :: "string \<Rightarrow> world \<Rightarrow> SessionManager \<times> world" where
  "init sid w =
     (case sessions w sid of
        None \<Rightarrow>
          (let (a, w1) = new_state w;
               w2 = w1\<lparr>sessions := (sessions w1)(sid \<mapsto> a)\<rparr>
           in (\<lparr>session_id = sid, state = a\<rparr>, w2))
      | Some a \<Rightarrow> (\<lparr>session_id = sid, state = a\<rparr>, w))"

text \<open>\<open>create_session\<close>; \<open>uuid\<close> is the value of \<open>uuid.uuid4().hex\<close>.\<close>

definition create_session :: "string \<Rightarrow> world \<Rightarrow> string \<times> world" where
  "create_session uuid w =
     (let (a, w1) = new_state w
      in (uuid, w1\<lparr>sessions := (sessions w1)(uuid \<mapsto> a)\<rparr>))"

definition delete_session :: "string \<Rightarrow> world \<Rightarrow> world" where
  "delete_session sid w = w\<lparr>sessions := (sessions w)(sid := None)\<rparr>"

definition has_session :: "string \<Rightarrow> world \<Rightarrow> bool" where
  "has_session sid w = (sessions w sid \<noteq> None)"

definition set_dataframe :: "SessionManager \<Rightarrow> nat \<Rightarrow> string \<Rightarrow> world \<Rightarrow> world" where
  "set_dataframe self df df_type w =
     (let w1 =
        (if df_type = ''raw'' then
           (let (c, w') = df_copy df w in on_state self (\<lambda>s. s\<lparr>raw_dataframe := Some c\<rparr>) w')
         else if df_type = ''cleaned'' then
           (let (c, w') = df_copy df w in on_state self (\<lambda>s. s\<lparr>cleaned_dataframe := Some c\<rparr>) w')
         else w);
          (c, w2) = df_copy df w1
      in on_state self (\<lambda>s. s\<lparr>current_dataframe := Some c\<rparr>) w2)"

definition get_dataframe :: "SessionManager \<Rightarrow> string \<Rightarrow> world \<Rightarrow> nat option" where
  "get_dataframe self df_type w =
     (if df_type = ''raw'' then raw_dataframe (states w (state self))
      else if df_type = ''cleaned'' then cleaned_dataframe (states w (state self))
      else current_dataframe (states w (state self)))"

text \<open>In the four \<open>add_*\<close> methods \<open>now\<close> is the formatted \<open>datetime.now()\<close>.\<close>

definition add_cleaning_log :: "SessionManager \<Rightarrow> string \<Rightarrow> string \<Rightarrow> string \<Rightarrow> world \<Rightarrow> world" where
  "add_cleaning_log self now act det w =
     on_state self (\<lambda>s. s\<lparr>cleaning_log := cleaning_log s @
       [\<lparr>timestamp = now, action = act, details = det\<rparr>]\<rparr>) w"

definition add_query :: "SessionManager \<Rightarrow> string \<Rightarrow> string \<Rightarrow> pyresult \<Rightarrow> string \<Rightarrow> world \<Rightarrow> world" where
  "add_query self now q res expl w =
     on_state self (\<lambda>s. s\<lparr>query_history := query_history s @
       [\<lparr>timestamp = now, query = q, result = res, explanation = expl\<rparr>]\<rparr>) w"

definition add_chart :: "SessionManager \<Rightarrow> string \<Rightarrow> pyval \<Rightarrow> string \<Rightarrow> string \<Rightarrow> world \<Rightarrow> world" where
  "add_chart self now chart_obj ctype ttl w =
     on_state self (\<lambda>s. s\<lparr>generated_charts := generated_charts s @
       [\<lparr>timestamp = now, chart = chart_obj, chart_type = ctype, title = ttl\<rparr>]\<rparr>) w"

definition add_insight :: "SessionManager \<Rightarrow> string \<Rightarrow> string \<Rightarrow> string \<Rightarrow> world \<Rightarrow> world" where
  "add_insight self now insight cat w =
     on_state self (\<lambda>s. s\<lparr>insights := insights s @
       [\<lparr>timestamp = now, insight_text = insight, category = cat\<rparr>]\<rparr>) w"

definition set_metadata :: "SessionManager \<Rightarrow> string \<Rightarrow> pyval \<Rightarrow> world \<Rightarrow> world" where
  "set_metadata self key val w =
     on_state self (\<lambda>s. s\<lparr>dataset_metadata := AList.update key val (dataset_metadata s)\<rparr>) w"

definition get_metadata :: "SessionManager \<Rightarrow> string \<Rightarrow> world \<Rightarrow> pyval" where
  "get_metadata self key w =
     (case map_of (dataset_metadata (states w (state self))) key of
        None \<Rightarrow> PNone | Some v \<Rightarrow> v)"

definition update_agent_status :: "SessionManager \<Rightarrow> string \<Rightarrow> bool \<Rightarrow> world \<Rightarrow> world" where
  "update_agent_status self agent status w =
     on_state self (\<lambda>s. s\<lparr>agent_status := AList.update agent status (agent_status s)\<rparr>) w"

definition set_file_info :: "SessionManager \<Rightarrow> pydict \<Rightarrow> world \<Rightarrow> world" where
  "set_file_info self info w = on_state self (\<lambda>s. s\<lparr>uploaded_file_info := info\<rparr>) w"

definition get_file_info :: "SessionManager \<Rightarrow> world \<Rightarrow> pydict" where
  "get_file_info self w = uploaded_file_info (states w (state self))"

text \<open>
  \<open>reset_session\<close>: a new state object is stored under the id and this instance is
  bound to it (the lookup of the second statement returns the object just stored).
  The object the instance referred to before is not written.
\<close>

definition reset_session :: "SessionManager \<Rightarrow> world \<Rightarrow> SessionManager \<times> world" where
  "reset_session self w =
     (let (a, w1) = new_state w;
          w2 = w1\<lparr>sessions := (sessions w1)(session_id self \<mapsto> a)\<rparr>
      in (self\<lparr>state := a\<rparr>, w2))"

definition get_summary :: "SessionManager \<Rightarrow> world \<Rightarrow> pydict" where
  "get_summary self w =
     (let st = states w (state self); df = current_dataframe st
      in [(''has_data'', PBool (df \<noteq> None)),
          (''rows'', PInt (case df of None \<Rightarrow> 0 | Some a \<Rightarrow> int (length (rows (frames w a))))),
          (''columns'', PInt (case df of None \<Rightarrow> 0 | Some a \<Rightarrow> int (length (columns (frames w a))))),
          (''cleaning_operations'', PInt (int (length (cleaning_log st)))),
          (''queries_executed'', PInt (int (length (query_history st)))),
          (''charts_generated'', PInt (int (length (generated_charts st)))),
          (''insights_count'', PInt (int (length (insights st))))])"

text \<open>
  The calls a client of the class can make. \<open>invoke\<close> runs a method on an instance and
  returns the instance (which \<open>reset_session\<close> rebinds) and the world, dropping the
  values of the getters. \<open>run\<close> is one step seen from an instance \<open>self\<close>: a method on
  \<open>self\<close>, a method on another instance, the construction of another instance, or a
  class method.
\<close>

datatype call =
    Set_dataframe nat string
  | Get_dataframe string
  | Add_cleaning_log string string string
  | Add_query string string pyresult string
  | Add_chart string pyval string string
  | Add_insight string string string
  | Set_metadata string pyval
  | Get_metadata string
  | Update_agent_status string bool
  | Set_file_info pydict
  | Get_file_info
  | Reset_session
  | Get_summary

fun invoke :: "call \<Rightarrow> SessionManager \<Rightarrow> world \<Rightarrow> SessionManager \<times> world" where
  "invoke (Set_dataframe df df_type) self w = (self, set_dataframe self df df_type w)"
| "invoke (Get_dataframe df_type) self w = (self, w)"
| "invoke (Add_cleaning_log now act det) self w = (self, add_cleaning_log self now act det w)"
| "invoke (Add_query now q res expl) self w = (self, add_query self now q res expl w)"
| "invoke (Add_chart now chart_obj ctype ttl) self w = (self, add_chart self now chart_obj ctype ttl w)"
| "invoke (Add_insight now insight cat) self w = (self, add_insight self now insight cat w)"
| "invoke (Set_metadata key val) self w = (self, set_metadata self key val w)"
| "invoke (Get_metadata key) self w = (self, w)"
| "invoke (Update_agent_status agent status) self w = (self, update_agent_status self agent status w)"
| "invoke (Set_file_info info) self w = (self, set_file_info self info w)"
| "invoke Get_file_info self w = (self, w)"
| "invoke Reset_session self w = reset_session self w"
| "invoke Get_summary self w = (self, w)"

datatype sm_op =
    On_self call
  | On_other SessionManager call
  | Construct string
  | Create_session string
  | Delete_session string
  | Has_session string

fun run :: "sm_op \<Rightarrow> SessionManager \<Rightarrow> world \<Rightarrow> SessionManager \<times> world" where
  "run (On_self m) self w = invoke m self w"
| "run (On_other other m) self w = (self, snd (invoke m other w))"
| "run (Construct sid) self w = (self, snd (init sid w))"
| "run (Create_session uuid) self w = (self, snd (create_session uuid w))"
| "run (Delete_session sid) self w = (self, delete_session sid w)"
| "run (Has_session sid) self w = (self, w)"

section \<open>app.py\<close>

text \<open>
  What the handlers read from a request: the \<open>X-Session-Id\<close> header and the uploaded
  file (name and bytes), each possibly absent. \<open>abort(code, description)\<close> is the
  error value \<open>Abort code description\<close>.
\<close>

record request =
  header_session :: "string option"
  upload :: "(string \<times> string) option"

datatype http_error = Abort nat string

text \<open>
  The web handlers also use the cookie session of the client
  (\<open>flask_session[SESSION_COOKIE_KEY]\<close>) and the flashed messages.
\<close>

record web =
  store :: world
  cookie :: "string option"
  flashed :: "(string \<times> string) list"

definition flash :: "string \<Rightarrow> string \<Rightarrow> web \<Rightarrow> web" where
  "flash msg cat c = c\<lparr>flashed := flashed c @ [(msg, cat)]\<rparr>"

definition ensure_web_session :: "string \<Rightarrow> web \<Rightarrow> SessionManager \<times> web" where
  "ensure_web_session uuid c =
     (let created =
            (let (sid', w1) = create_session uuid (store c)
             in (sid', c\<lparr>store := w1, cookie := Some sid'\<rparr>));
          (sid, c1) =
            (case cookie c of
               None \<Rightarrow> created
             | Some sid0 \<Rightarrow>
                 if sid0 = [] \<or> \<not> has_session sid0 (store c) then created else (sid0, c));
          (session, w2) = init sid (store c1)
      in (session, c1\<lparr>store := w2\<rparr>))"

definition get_session_or_abort :: "request \<Rightarrow> world \<Rightarrow> http_error + SessionManager \<times> world" where
  "get_session_or_abort req w =
     (case header_session req of
        None \<Rightarrow> Inl (Abort 400 ''Missing or invalid session id'')
      | Some sid \<Rightarrow>
          if sid = [] \<or> \<not> has_session sid w
          then Inl (Abort 400 ''Missing or invalid session id'')
          else Inr (init sid w))"

definition resolve_session_from_request ::
  "request \<Rightarrow> string option \<Rightarrow> world \<Rightarrow> http_error + SessionManager \<times> world" where
  "resolve_session_from_request req cookie_session w =
     (let by_cookie =
            (case cookie_session of
               None \<Rightarrow> Inl (Abort 400 ''Missing or invalid session id'')
             | Some sid \<Rightarrow>
                 if sid \<noteq> [] \<and> has_session sid w then Inr (init sid w)
                 else Inl (Abort 400 ''Missing or invalid session id''))
      in case header_session req of
           None \<Rightarrow> by_cookie
         | Some sid \<Rightarrow>
             if sid \<noteq> [] \<and> has_session sid w then Inr (init sid w) else by_cookie)"

subsection \<open>History normalizer\<close>

fun isinstance_DataFrame :: "pyresult \<Rightarrow> bool" where
  "isinstance_DataFrame (RDataFrame df) = True"
| "isinstance_DataFrame r = False"

fun isinstance_Series :: "pyresult \<Rightarrow> bool" where
  "isinstance_Series (RSeries sr) = True"
| "isinstance_Series r = False"

text \<open>\<open>isinstance(result, (int, float))\<close>: \<open>bool\<close> is a subclass of \<open>int\<close>.\<close>

fun isinstance_int_float :: "pyresult \<Rightarrow> bool" where
  "isinstance_int_float (RBool b) = True"
| "isinstance_int_float (RInt i) = True"
| "isinstance_int_float (RFloat f) = True"
| "isinstance_int_float r = False"

text \<open>
  \<open>len(result)\<close>, \<open>result.columns\<close>, \<open>result.name\<close>, the result as a dict value and
  \<open>str(result)\<close>. Each is used below only under the \<open>isinstance\<close> test of its branch;
  the last clause of each function is never reached there.
\<close>

fun len_result :: "pyresult \<Rightarrow> int" where
  "len_result (RDataFrame df) = int (length (rows df))"
| "len_result (RSeries sr) = int (length (series_values sr))"
| "len_result r = 0"

fun columns_of :: "pyresult \<Rightarrow> pyval list" where
  "columns_of (RDataFrame df) = columns df"
| "columns_of r = []"

fun name_of :: "pyresult \<Rightarrow> pyval" where
  "name_of (RSeries sr) = series_name sr"
| "name_of r = PNone"

fun value_of :: "pyresult \<Rightarrow> pyval" where
  "value_of (RBool b) = PBool b"
| "value_of (RInt i) = PInt i"
| "value_of (RFloat f) = PFloat f"
| "value_of (RStr s) = PStr s"
| "value_of r = PNone"

fun str_of :: "pyresult \<Rightarrow> string" where
  "str_of (RStr s) = s"
| "str_of (ROther s) = s"
| "str_of r = []"

definition result_summary :: "pyresult \<Rightarrow> pydict" where
  "result_summary res =
     (if isinstance_DataFrame res then
        [(''type'', PStr ''dataframe''), (''rows'', PInt (len_result res)),
         (''columns'', PList (columns_of res))]
      else if isinstance_Series res then
        [(''type'', PStr ''series''), (''length'', PInt (len_result res)),
         (''name'', name_of res)]
      else if isinstance_int_float res then
        [(''type'', PStr ''scalar''), (''value'', value_of res)]
      else
        [(''type'', PStr ''text''), (''value'', PStr (str_of res))])"

text \<open>The loop over \<open>session.state.query_history\<close>, one appended dict for each item.\<close>

fun history_loop :: "query_entry list \<Rightarrow> pydict list \<Rightarrow> pydict list" where
  "history_loop [] history = history"
| "history_loop (item # items) history =
     history_loop items
       (history @
        [[(''timestamp'', PStr (timestamp item)),
          (''query'', PStr (query item)),
          (''explanation'', PStr (explanation item)),
          (''result_summary'', PDict (result_summary (result item)))]])"

definition serialize_history :: "SessionManager \<Rightarrow> world \<Rightarrow> pydict list" where
  "serialize_history session w = history_loop (query_history (states w (state session))) []"

subsection \<open>Chart payloads\<close>

text \<open>
  \<open>json.dumps(figure, cls=PlotlyJSONEncoder)\<close> is library code: the function takes the
  encoder as \<open>dumps\<close>, which returns the JSON text or the exception it raised.
\<close>

datatype py_error = TypeError | ValueError | RecursionError

definition empty_figure :: pyval where
  "empty_figure = PDict [(''data'', PList []), (''layout'', PDict [])]"

text \<open>\<open>chart.get("figure") or {}\<close>\<close>

definition figure_of :: "pydict \<Rightarrow> pyval" where
  "figure_of ch =
     (case map_of ch ''figure'' of
        None \<Rightarrow> PDict []
      | Some v \<Rightarrow> if truthy v then v else PDict [])"

text \<open>The \<open>try\<close> statement: only \<open>TypeError\<close> is caught.\<close>

definition figure_json_of :: "(pyval \<Rightarrow> py_error + string) \<Rightarrow> pyval \<Rightarrow> py_error + string" where
  "figure_json_of dumps figure =
     (case dumps figure of
        Inl TypeError \<Rightarrow> dumps empty_figure
      | Inl e \<Rightarrow> Inl e
      | Inr js \<Rightarrow> Inr js)"

fun serialize_loop ::
  "(pyval \<Rightarrow> py_error + string) \<Rightarrow> pydict list \<Rightarrow> pydict list \<Rightarrow> py_error + pydict list" where
  "serialize_loop dumps [] serialized = Inr serialized"
| "serialize_loop dumps (ch # charts) serialized =
     (case figure_json_of dumps (figure_of ch) of
        Inl e \<Rightarrow> Inl e
      | Inr figure_json \<Rightarrow>
          serialize_loop dumps charts
            (serialized @ [AList.update ''figure_json'' (PStr figure_json) ch]))"

text \<open>\<open>charts or []\<close>: \<open>None\<close> and the empty list both give no iteration.\<close>

definition serialize_chart_payloads ::
  "(pyval \<Rightarrow> py_error + string) \<Rightarrow> pydict list option \<Rightarrow> py_error + pydict list" where
  "serialize_chart_payloads dumps charts =
     serialize_loop dumps (case charts of None \<Rightarrow> [] | Some cs \<Rightarrow> cs) []"

subsection \<open>Upload handlers\<close>

text \<open>
  The agents are not among the sources. \<open>InputAgent(session).execute(bytes, filename,
  size)\<close> is a parameter \<open>agent\<close> of the two handlers: it returns the result dict
  (\<open>success\<close>, \<open>message\<close>, and \<open>preview\<close> when present), and may have changed the
  session and the world in any way.
\<close>

record agent_result =
  success :: bool
  message :: string
  preview :: "pydict option"

type_synonym input_agent =
  "SessionManager \<Rightarrow> string \<Rightarrow> string \<Rightarrow> nat \<Rightarrow> world \<Rightarrow> agent_result \<times> SessionManager \<times> world"

datatype response = Redirect string | Json agent_result

definition upload_step :: "input_agent \<Rightarrow> string \<Rightarrow> request \<Rightarrow> web \<Rightarrow> response \<times> web" where
  "upload_step agent uuid req c =
     (let (session, c1) = ensure_web_session uuid c
      in case upload req of
           None \<Rightarrow> (Redirect ''upload'', flash ''Please select a file to upload.'' ''error'' c1)
         | Some (filename, file_bytes) \<Rightarrow>
             if filename = [] then
               (Redirect ''upload'', flash ''Please select a file to upload.'' ''error'' c1)
             else
               (let (res, session', w2) =
                      agent session file_bytes filename (length file_bytes) (store c1)
                in if \<not> success res then
                     (Redirect ''upload'', flash (message res) ''error'' (c1\<lparr>store := w2\<rparr>))
                   else
                     (let w3 = on_state session'
                            (\<lambda>s. s\<lparr>dataset_preview :=
                                       (case preview res of None \<Rightarrow> [] | Some pv \<Rightarrow> pv),
                                    cleaning_summary := [],
                                    last_query_result := [],
                                    chart_payloads := [],
                                    report_status := []\<rparr>) w2
                      in (Redirect ''upload'',
                          flash (message res) ''success'' (c1\<lparr>store := w3\<rparr>)))))"

definition upload_file :: "input_agent \<Rightarrow> request \<Rightarrow> world \<Rightarrow> (http_error + response) \<times> world" where
  "upload_file agent req w =
     (case get_session_or_abort req w of
        Inl e \<Rightarrow> (Inl e, w)
      | Inr (session, w1) \<Rightarrow>
          (case upload req of
             None \<Rightarrow> (Inl (Abort 400 ''File is required''), w1)
           | Some (filename, file_bytes) \<Rightarrow>
               if filename = [] then (Inl (Abort 400 ''File is required''), w1)
               else
                 (let (res, session', w2) =
                        agent session file_bytes filename (length file_bytes) w1
                  in if \<not> success res then (Inl (Abort 400 (message res)), w2)
                     else (Inr (Json res), w2))))"

text \<open>
  An input agent for concrete runs: it stores a one-column frame as the raw and
  current dataset through the session manager, marks the input stage complete and
  reports success. It writes none of the latest-result caches.
\<close>

definition storing_agent :: input_agent where
  "storing_agent session file_bytes filename n_bytes w =
     (let df = next_frame w;
          w1 = w\<lparr>frames := (frames w)(df := \<lparr>columns = [PStr ''x''], rows = [[Val (PInt 1)]]\<rparr>),
                next_frame := Suc df\<rparr>;
          w2 = set_dataframe session df ''raw'' w1;
          w3 = update_agent_status session ''input_complete'' True w2
      in (\<lparr>success = True, message = ''File loaded'', preview = Some [(''rows'', PInt 1)]\<rparr>,
          session, w3))"

section \<open>Notions used in the statements\<close>

text \<open>Each of the four logs of \<open>s\<close> is an initial segment of the same log of \<open>s'\<close>.\<close>

definition lists_extend :: "SessionState \<Rightarrow> SessionState \<Rightarrow> bool" where
  "lists_extend s s' =
     (prefix (cleaning_log s) (cleaning_log s')
      \<and> prefix (query_history s) (query_history s')
      \<and> prefix (generated_charts s) (generated_charts s')
      \<and> prefix (insights s) (insights s'))"

text \<open>
  The two ways the owner of a frame can change it in place: a change \<open>f\<close> of the frame
  object at address \<open>df\<close> itself (assigning a cell, dropping or adding rows or
  columns), and a change \<open>g\<close> of a Python object at address \<open>obj\<close> that a cell refers
  to (\<open>df.at[1, 'x'].append(5)\<close>).
\<close>

definition mutate_frame :: "nat \<Rightarrow> (dataframe \<Rightarrow> dataframe) \<Rightarrow> world \<Rightarrow> world" where
  "mutate_frame df f w = w\<lparr>frames := (frames w)(df := f (frames w df))\<rparr>"

definition mutate_object :: "nat \<Rightarrow> (pyval \<Rightarrow> pyval) \<Rightarrow> world \<Rightarrow> world" where
  "mutate_object obj g w = w\<lparr>objects := (objects w)(obj := g (objects w obj))\<rparr>"

text \<open>\<open>df.drop(df.index, inplace=True)\<close> and \<open>list.append\<close>.\<close>

definition drop_all_rows :: "dataframe \<Rightarrow> dataframe" where
  "drop_all_rows d = d\<lparr>rows := []\<rparr>"

fun list_append :: "pyval \<Rightarrow> pyval \<Rightarrow> pyval" where
  "list_append x (PList xs) = PList (xs @ [x])"
| "list_append x v = v"

text \<open>What reading a cell, and reading all the cells of the frame at an address, gives.\<close>

fun cell_value :: "world \<Rightarrow> cell \<Rightarrow> pyval" where
  "cell_value w (Val v) = v"
| "cell_value w (Ref obj) = objects w obj"

definition frame_values :: "world \<Rightarrow> nat \<Rightarrow> pyval list list" where
  "frame_values w a = map (map (cell_value w)) (rows (frames w a))"

text \<open>
  An encoder for concrete runs. It encodes the two dicts the function builds itself,
  raises \<open>ValueError\<close> on \<open>PObject ''cyclic''\<close>, which stands for a dict that contains
  itself (\<open>json.dumps\<close>: "Circular reference detected"), and \<open>TypeError\<close> on anything
  else.
\<close>

definition placeholder_json :: string where
  "placeholder_json =
     ''{'' @ [CHR 0x22] @ ''data'' @ [CHR 0x22] @ '': [], '' @ [CHR 0x22] @ ''layout''
       @ [CHR 0x22] @ '': {}}''"

definition sample_dumps :: "pyval \<Rightarrow> py_error + string" where
  "sample_dumps v =
     (if v = empty_figure then Inr placeholder_json
      else if v = PDict [] then Inr ''{}''
      else if v = PObject ''cyclic'' then Inl ValueError
      else Inl TypeError)"

text \<open>
  A process in which session \<open>"s"\<close> exists and holds a cached cleaning summary, as the
  web handler of the cleaning step leaves it, and an upload request naming that
  session in its header.
\<close>

definition cached_world :: world where
  "cached_world =
     on_state (fst (init ''s'' initial_world))
       (\<lambda>s. s\<lparr>cleaning_summary := [(''rows_removed'', PInt 2)]\<rparr>)
       (snd (init ''s'' initial_world))"

definition csv_request :: request where
  "csv_request = \<lparr>header_session = Some ''s'', upload = Some (''data.csv'', ''x'')\<rparr>"

text \<open>
  A process in which session \<open>"s"\<close> exists and one frame object has been loaded, at
  address 0: a column \<open>x\<close> of dtype \<open>object\<close> holding the integer 1 and the list
  \<open>[1]\<close>, the list being the object at address 0.
\<close>

definition loaded_world :: world where
  "loaded_world =
     (snd (init ''s'' initial_world))
       \<lparr>frames := (\<lambda>a. \<lparr>columns = [], rows = []\<rparr>)
                   (0 := \<lparr>columns = [PStr ''x''], rows = [[Val (PInt 1)], [Ref 0]]\<rparr>),
        next_frame := 1,
        objects := (\<lambda>a. PNone)(0 := PList [PInt 1])\<rparr>"

section \<open>Substring test\<close>

lemma startswith_iff_prefix: "startswith s k \<longleftrightarrow> prefix k s"
  by (induction s k rule: startswith.induct) auto

lemma py_in_iff_sublist: "py_in k s \<longleftrightarrow> sublist k s"
proof (induction s)
  case Nil
  show ?case by auto
next
  case (Cons c s)
  show ?case
    by (simp add: Cons.IH startswith_iff_prefix sublist_Cons_right del: startswith.simps)
qed

lemma py_in_iff_split: "py_in k s \<longleftrightarrow> (\<exists>p t. s = p @ k @ t)"
  by (simp add: py_in_iff_sublist sublist_def)

section \<open>validate\_query\<close>

lemma strip_Nil_iff: "strip s = [] \<longleftrightarrow> (\<forall>c \<in> set s. isspace c)"
proof
  assume "strip s = []"
  then have all: "\<forall>c \<in> set (dropWhile isspace s). isspace c"
    by (simp add: strip_def dropWhile_eq_Nil_conv)
  have "dropWhile isspace s = []"
  proof (rule ccontr)
    assume ne: "dropWhile isspace s \<noteq> []"
    then have "\<not> isspace (hd (dropWhile isspace s))" by (rule hd_dropWhile)
    with all ne show False by simp
  qed
  then show "\<forall>c \<in> set s. isspace c" by (simp add: dropWhile_eq_Nil_conv)
next
  assume "\<forall>c \<in> set s. isspace c"
  then have "dropWhile isspace s = []" by (simp add: dropWhile_eq_Nil_conv)
  then have "strip s = rev (dropWhile isspace (rev []))" by (simp only: strip_def)
  then show "strip s = []" by simp
qed

text \<open>
  C4, as stated: \<open>validate_query\<close> accepts exactly the strings whose trimmed length is in
  \<open>[3, 500]\<close>. The code measures the untrimmed string: \<open>"  a"\<close> has length 3, trimmed
  length 1, and is accepted.
\<close>

theorem validate_query_trimmed_counterexample:
  "fst (validate_query ''  a'')
   \<noteq> (3 \<le> length (strip ''  a'') \<and> length (strip ''  a'') \<le> 500)"
  by (simp add: validate_query_def strip_def isspace_def)

text \<open>
  C4, amended: \<open>validate_query\<close> accepts exactly the strings that are not all
  whitespace and whose own length (not the trimmed one) is in \<open>[3, 500]\<close>; \<open>"ab"\<close>
  fails and \<open>"abc"\<close> passes.
\<close>

theorem validate_query_raw_length:
  "fst (validate_query q) = (strip q \<noteq> [] \<and> 3 \<le> length q \<and> length q \<le> 500)
   \<and> \<not> fst (validate_query ''ab'') \<and> fst (validate_query ''abc'')"
proof -
  have "fst (validate_query q) = (strip q \<noteq> [] \<and> 3 \<le> length q \<and> length q \<le> 500)"
    by (auto simp: validate_query_def strip_def)
  moreover have "\<not> fst (validate_query ''ab'')"
    by (simp add: validate_query_def)
  moreover have "fst (validate_query ''abc'')"
    by (simp add: validate_query_def strip_def isspace_def)
  ultimately show ?thesis by blast
qed

section \<open>is\_safe\_query\<close>






section \<open>History normalizer\<close>

lemma history_loop_map:
  "history_loop items history =
     history @ map (\<lambda>item.
        [(''timestamp'', PStr (timestamp item)),
         (''query'', PStr (query item)),
         (''explanation'', PStr (explanation item)),
         (''result_summary'', PDict (result_summary (result item)))]) items"
  by (induction items arbitrary: history) simp_all


text \<open>
  C10: a result that is a Python \<open>bool\<close> passes the test \<open>isinstance(result, (int,
  float))\<close> and is summarised as a scalar carrying the boolean itself, also in the
  serialized history of a session it was recorded in.
\<close>

theorem bool_result_is_scalar:
  "result_summary (RBool b) = [(''type'', PStr ''scalar''), (''value'', PBool b)]
   \<and> serialize_history session (add_query session now q (RBool b) expl w) =
       serialize_history session w @
       [[(''timestamp'', PStr now), (''query'', PStr q), (''explanation'', PStr expl),
         (''result_summary'', PDict [(''type'', PStr ''scalar''), (''value'', PBool b)])]]"
  by (simp add: result_summary_def serialize_history_def history_loop_map add_query_def
      on_state_def)

section \<open>Session lookup\<close>

text \<open>
  C1, as stated: constructing a \<open>SessionManager\<close> for an id that is not registered
  fails. It does not: in the process at start, where no id is registered, the
  constructor for \<open>"ghost"\<close> returns an instance and has registered a fresh state.
\<close>

theorem init_registers_unknown_id_counterexample:
  "\<not> has_session ''ghost'' initial_world
   \<and> has_session ''ghost'' (snd (init ''ghost'' initial_world))
   \<and> states (snd (init ''ghost'' initial_world)) (state (fst (init ''ghost'' initial_world)))
       = SessionState_new"
  by (simp add: has_session_def initial_world_def init_def new_state_def)

text \<open>
  C1, amended: for an id that is not registered, \<open>has_session\<close> is false, and
  \<open>get_session_or_abort\<close> and \<open>resolve_session_from_request\<close> abort with status 400
  when the request carries that id; the constructor itself registers a fresh empty
  \<open>SessionState\<close> under the id and binds the instance to it.
\<close>

theorem unknown_id_guarded:
  assumes "sessions w sid = None"
  shows "\<not> has_session sid w
   \<and> get_session_or_abort (req\<lparr>header_session := Some sid\<rparr>) w
       = Inl (Abort 400 ''Missing or invalid session id'')
   \<and> resolve_session_from_request (req\<lparr>header_session := Some sid\<rparr>) (Some sid) w
       = Inl (Abort 400 ''Missing or invalid session id'')
   \<and> has_session sid (snd (init sid w))
   \<and> sessions (snd (init sid w)) sid = Some (state (fst (init sid w)))
   \<and> states (snd (init sid w)) (state (fst (init sid w))) = SessionState_new"
  using assms
  by (simp add: has_session_def get_session_or_abort_def resolve_session_from_request_def
      init_def new_state_def)

theorem unknown_id_guarded_witness:
  "sessions initial_world ''ghost'' = None
   \<and> \<not> has_session ''ghost'' initial_world
   \<and> get_session_or_abort \<lparr>header_session = Some ''ghost'', upload = None\<rparr> initial_world
       = Inl (Abort 400 ''Missing or invalid session id'')
   \<and> has_session ''ghost'' (snd (init ''ghost'' initial_world))"
proof -
  have h: "sessions initial_world ''ghost'' = None"
    by (simp add: initial_world_def)
  from unknown_id_guarded [OF h, of "\<lparr>header_session = None, upload = None\<rparr>"] h
  show ?thesis by simp
qed

section \<open>State objects and instances\<close>

lemma states_on_state:
  "states (on_state h f w) a = (if a = state h then f (states w a) else states w a)"
  by (simp add: on_state_def)

lemma cached_world_session: "sessions cached_world ''s'' = Some 0"
  by (simp add: cached_world_def init_def new_state_def initial_world_def on_state_def)

lemma init_cached_world:
  "init ''s'' cached_world = (\<lparr>session_id = ''s'', state = 0\<rparr>, cached_world)"
  by (simp add: init_def cached_world_session)

text \<open>
  C2, as stated: after \<open>reset_session\<close>, every instance obtained for the id before the
  reset reads the reset state. Here two instances are constructed for \<open>"s"\<close>, an entry
  is logged, and the first instance resets: the second still reads the logged entry.
\<close>

theorem stale_handle_counterexample:
  "cleaning_log
     (states
        (snd (reset_session (fst (init ''s'' initial_world))
                (add_cleaning_log (fst (init ''s'' initial_world)) ''2024-01-01 00:00:00''
                   ''drop'' ''x'' (snd (init ''s'' initial_world)))))
        (state (fst (init ''s'' (snd (init ''s'' initial_world))))))
   \<noteq> []"
  by (simp add: init_def new_state_def initial_world_def reset_session_def
      add_cleaning_log_def on_state_def)

text \<open>
  C2, amended: after \<open>reset_session\<close> on an instance, reads through that instance, and
  through any instance constructed for the id afterwards, observe the reset state
  (the four logs empty, \<open>current_dataframe\<close> null). An instance obtained before the
  reset refers to a state object that the reset does not write: it keeps reading the
  state as it was.
\<close>

theorem reset_session_rebinds:
  assumes "state other < next_state w"
  shows "cleaning_log (states (snd (reset_session self w)) (state (fst (reset_session self w)))) = []
   \<and> query_history (states (snd (reset_session self w)) (state (fst (reset_session self w)))) = []
   \<and> generated_charts (states (snd (reset_session self w)) (state (fst (reset_session self w)))) = []
   \<and> insights (states (snd (reset_session self w)) (state (fst (reset_session self w)))) = []
   \<and> current_dataframe (states (snd (reset_session self w)) (state (fst (reset_session self w)))) = None
   \<and> fst (init (session_id self) (snd (reset_session self w))) = fst (reset_session self w)
   \<and> states (snd (reset_session self w)) (state other) = states w (state other)"
  using assms
  by (simp add: reset_session_def new_state_def init_def SessionState_new_def)

theorem reset_session_rebinds_witness:
  "state (fst (init ''s'' initial_world)) < next_state cached_world
   \<and> cleaning_summary (states (snd (reset_session (fst (init ''s'' initial_world)) cached_world))
        (state (fst (init ''s'' initial_world)))) = [(''rows_removed'', PInt 2)]
   \<and> insights (states (snd (reset_session (fst (init ''s'' initial_world)) cached_world))
        (state (fst (reset_session (fst (init ''s'' initial_world)) cached_world)))) = []"
proof -
  have h: "state (fst (init ''s'' initial_world)) < next_state cached_world"
    by (simp add: cached_world_def init_def new_state_def initial_world_def on_state_def)
  have c: "cleaning_summary (states cached_world (state (fst (init ''s'' initial_world))))
      = [(''rows_removed'', PInt 2)]"
    by (simp add: cached_world_def states_on_state)
  from reset_session_rebinds [OF h, of "fst (init ''s'' initial_world)"] h c
  show ?thesis by simp
qed

section \<open>The four logs only grow\<close>

lemma lists_extend_refl: "lists_extend s s"
  by (simp add: lists_extend_def)

lemma set_dataframe_lists:
  "lists_extend (states w a) (states (set_dataframe h df t w) a)"
  by (simp add: set_dataframe_def df_copy_def lists_extend_def Let_def on_state_def)

lemma invoke_keeps_instance:
  "m \<noteq> Reset_session \<Longrightarrow> fst (invoke m h w) = h"
  by (cases m) simp_all

lemma invoke_lists_extend:
  "m \<noteq> Reset_session \<Longrightarrow> lists_extend (states w a) (states (snd (invoke m h w)) a)"
  by (cases m)
     (simp_all add: set_dataframe_lists lists_extend_refl,
      simp_all add: lists_extend_def states_on_state add_cleaning_log_def add_query_def
        add_chart_def add_insight_def set_metadata_def update_agent_status_def set_file_info_def)

lemma reset_session_old_states:
  "a < next_state w \<Longrightarrow> states (snd (reset_session h w)) a = states w a"
  by (simp add: reset_session_def new_state_def)

lemma invoke_allocated_lists_extend:
  "a < next_state w \<Longrightarrow> lists_extend (states w a) (states (snd (invoke m h w)) a)"
  by (cases "m = Reset_session")
     (simp_all add: reset_session_old_states lists_extend_refl invoke_lists_extend)

lemma init_old_states:
  "a < next_state w \<Longrightarrow> states (snd (init sid w)) a = states w a"
  by (simp add: init_def new_state_def split: option.splits)

lemma create_session_old_states:
  "a < next_state w \<Longrightarrow> states (snd (create_session uuid w)) a = states w a"
  by (simp add: create_session_def new_state_def)

lemma delete_session_states: "states (delete_session sid w) a = states w a"
  by (simp add: delete_session_def)

text \<open>
  C8: seen from any instance whose state object exists, every step other than
  \<open>reset_session\<close> on that instance (a method on it, a method on any other instance,
  the construction of an instance, \<open>create_session\<close>, \<open>delete_session\<close>,
  \<open>has_session\<close>) leaves each of \<open>cleaning_log\<close>, \<open>query_history\<close>,
  \<open>generated_charts\<close> and \<open>insights\<close> an initial segment of its new value; each
  \<open>add_*\<close> method appends exactly its one record at the end of its list.
\<close>

theorem lists_only_grow:
  assumes "state self < next_state w" and "op \<noteq> On_self Reset_session"
  shows "lists_extend (states w (state self))
           (states (snd (run op self w)) (state (fst (run op self w))))
   \<and> cleaning_log (states (add_cleaning_log self now act det w) (state self)) =
       cleaning_log (states w (state self)) @ [\<lparr>timestamp = now, action = act, details = det\<rparr>]
   \<and> query_history (states (add_query self now q res expl w) (state self)) =
       query_history (states w (state self)) @
       [\<lparr>timestamp = now, query = q, result = res, explanation = expl\<rparr>]
   \<and> generated_charts (states (add_chart self now chart_obj ctype ttl w) (state self)) =
       generated_charts (states w (state self)) @
       [\<lparr>timestamp = now, chart = chart_obj, chart_type = ctype, title = ttl\<rparr>]
   \<and> insights (states (add_insight self now insight cat w) (state self)) =
       insights (states w (state self)) @
       [\<lparr>timestamp = now, insight_text = insight, category = cat\<rparr>]"
proof -
  have grow: "lists_extend (states w (state self))
           (states (snd (run op self w)) (state (fst (run op self w))))"
  proof (cases op)
    case (On_self m)
    with assms(2) have "m \<noteq> Reset_session" by simp
    then show ?thesis
      using On_self by (simp add: invoke_keeps_instance invoke_lists_extend)
  next
    case (On_other other m)
    then show ?thesis using assms(1) by (simp add: invoke_allocated_lists_extend)
  next
    case (Construct sid)
    then show ?thesis using assms(1) by (simp add: init_old_states lists_extend_refl)
  next
    case (Create_session uuid)
    then show ?thesis using assms(1) by (simp add: create_session_old_states lists_extend_refl)
  next
    case (Delete_session sid)
    then show ?thesis by (simp add: delete_session_states lists_extend_refl)
  next
    case (Has_session sid)
    then show ?thesis by (simp add: lists_extend_refl)
  qed
  have adds: "cleaning_log (states (add_cleaning_log self now act det w) (state self)) =
       cleaning_log (states w (state self)) @ [\<lparr>timestamp = now, action = act, details = det\<rparr>]"
    "query_history (states (add_query self now q res expl w) (state self)) =
       query_history (states w (state self)) @
       [\<lparr>timestamp = now, query = q, result = res, explanation = expl\<rparr>]"
    "generated_charts (states (add_chart self now chart_obj ctype ttl w) (state self)) =
       generated_charts (states w (state self)) @
       [\<lparr>timestamp = now, chart = chart_obj, chart_type = ctype, title = ttl\<rparr>]"
    "insights (states (add_insight self now insight cat w) (state self)) =
       insights (states w (state self)) @
       [\<lparr>timestamp = now, insight_text = insight, category = cat\<rparr>]"
    by (simp_all add: add_cleaning_log_def add_query_def add_chart_def add_insight_def
        states_on_state)
  from grow adds show ?thesis by blast
qed

theorem lists_only_grow_witness:
  "state \<lparr>session_id = ''s'', state = 0\<rparr> < next_state cached_world
   \<and> On_other \<lparr>session_id = ''s'', state = 0\<rparr> Reset_session \<noteq> On_self Reset_session
   \<and> lists_extend (states cached_world 0)
       (states (snd (run (On_other \<lparr>session_id = ''s'', state = 0\<rparr> Reset_session)
                       \<lparr>session_id = ''s'', state = 0\<rparr> cached_world)) 0)
   \<and> insights (states (add_insight \<lparr>session_id = ''s'', state = 0\<rparr> ''2024-01-01 00:00:00''
                 ''sales rise'' ''general'' cached_world) 0)
       = [\<lparr>timestamp = ''2024-01-01 00:00:00'', insight_text = ''sales rise'',
           category = ''general''\<rparr>]"
proof -
  have h: "state \<lparr>session_id = ''s'', state = 0\<rparr> < next_state cached_world"
    by (simp add: cached_world_def init_def new_state_def initial_world_def on_state_def)
  have n: "On_other \<lparr>session_id = ''s'', state = 0\<rparr> Reset_session \<noteq> On_self Reset_session"
    by simp
  have i: "insights (states cached_world 0) = []"
    by (simp add: cached_world_def init_def new_state_def initial_world_def on_state_def
        SessionState_new_def)
  from lists_only_grow [OF h n, of "''2024-01-01 00:00:00''" _ _ _ _ _ _ _ _ "''sales rise''"
      "''general''"] h n i
  show ?thesis by simp
qed

section \<open>Defensive copies\<close>

lemma cell_value_cong:
  assumes "objects w' = objects w"
  shows "cell_value w' = cell_value w"
proof (rule ext)
  fix c
  show "cell_value w' c = cell_value w c"
    using assms by (cases c) simp_all
qed

lemma frame_values_cong:
  assumes "objects w' = objects w" and "frames w' a = frames w b"
  shows "frame_values w' a = frame_values w b"
  using assms(2) cell_value_cong [OF assms(1)] by (simp add: frame_values_def)

lemma objects_set_dataframe: "objects (set_dataframe self df t w) = objects w"
  by (simp add: set_dataframe_def df_copy_def on_state_def)

lemma objects_mutate_frame: "objects (mutate_frame df f w) = objects w"
  by (simp add: mutate_frame_def)

lemma frames_mutate_object: "frames (mutate_object obj g w) = frames w"
  by (simp add: mutate_object_def)

lemma objects_mutate_object_set_dataframe:
  "objects (mutate_object obj g (set_dataframe self df t w)) = objects (mutate_object obj g w)"
  by (simp add: mutate_object_def objects_set_dataframe)

lemma loaded_world_frame:
  "frames loaded_world 0 = \<lparr>columns = [PStr ''x''], rows = [[Val (PInt 1)], [Ref 0]]\<rparr>
   \<and> frames loaded_world 1 = \<lparr>columns = [], rows = []\<rparr>
   \<and> objects loaded_world 0 = PList [PInt 1]
   \<and> next_frame loaded_world = 1"
  by (simp add: loaded_world_def)

text \<open>
  C9, as stated: after \<open>set_dataframe\<close>, no in-place mutation of the caller's dataframe
  changes the values later returned by \<open>get_dataframe\<close>. The caller's frame at
  address 0 holds a list in a cell of dtype \<open>object\<close>. After \<open>set_dataframe(df, 'raw')\<close>
  the caller appends 5 to that list through its own frame; the frame that
  \<open>get_dataframe('raw')\<close> returns, which read \<open>[1]\<close> in that cell, now reads \<open>[1, 5]\<close>.
\<close>

theorem shared_cell_object_counterexample:
  "rows (frames loaded_world 0) = [[Val (PInt 1)], [Ref 0]]
   \<and> get_dataframe \<lparr>session_id = ''s'', state = 0\<rparr> ''raw''
       (set_dataframe \<lparr>session_id = ''s'', state = 0\<rparr> 0 ''raw'' loaded_world) = Some 1
   \<and> frame_values (set_dataframe \<lparr>session_id = ''s'', state = 0\<rparr> 0 ''raw'' loaded_world) 1
       = [[PInt 1], [PList [PInt 1]]]
   \<and> get_dataframe \<lparr>session_id = ''s'', state = 0\<rparr> ''raw''
       (mutate_object 0 (list_append (PInt 5))
          (set_dataframe \<lparr>session_id = ''s'', state = 0\<rparr> 0 ''raw'' loaded_world)) = Some 1
   \<and> frame_values
       (mutate_object 0 (list_append (PInt 5))
          (set_dataframe \<lparr>session_id = ''s'', state = 0\<rparr> 0 ''raw'' loaded_world)) 1
       = [[PInt 1], [PList [PInt 1, PInt 5]]]"
  by (simp add: loaded_world_def set_dataframe_def df_copy_def on_state_def get_dataframe_def
      mutate_object_def frame_values_def)

text \<open>
  C9, amended: for a frame object \<open>df\<close> and any \<open>df_type\<close>, \<open>set_dataframe\<close> stores a
  fresh copy of \<open>df\<close> in \<open>current_dataframe\<close>, and one more in \<open>raw_dataframe\<close> for
  \<open>'raw'\<close> or in \<open>cleaned_dataframe\<close> for \<open>'cleaned'\<close>. What \<open>get_dataframe\<close> then
  returns for that \<open>df_type\<close> or for \<open>'current'\<close> is a frame object other than \<open>df\<close>
  with the labels and cells \<open>df\<close> had, and no later in-place change of the frame
  object \<open>df\<close> itself changes it or the values read from it. The copy shares with
  \<open>df\<close> the Python objects that cells of dtype \<open>object\<close> refer to: after an in-place
  change of such an object the copy reads what \<open>df\<close> reads.
\<close>

theorem set_dataframe_copies_frame:
  assumes "df < next_frame w"
  shows "current_dataframe (states (set_dataframe self df t w) (state self)) =
           Some (if t = ''raw'' \<or> t = ''cleaned'' then Suc (next_frame w) else next_frame w)
   \<and> (t = ''raw'' \<longrightarrow>
        raw_dataframe (states (set_dataframe self df t w) (state self)) = Some (next_frame w))
   \<and> (t = ''cleaned'' \<longrightarrow>
        cleaned_dataframe (states (set_dataframe self df t w) (state self)) = Some (next_frame w))
   \<and> (\<forall>a. get_dataframe self t (set_dataframe self df t w) = Some a
            \<or> get_dataframe self ''current'' (set_dataframe self df t w) = Some a \<longrightarrow>
          a \<noteq> df
          \<and> next_frame w \<le> a
          \<and> frames (set_dataframe self df t w) a = frames w df
          \<and> frame_values (set_dataframe self df t w) a = frame_values w df
          \<and> (\<forall>f. get_dataframe self t (mutate_frame df f (set_dataframe self df t w))
                    = get_dataframe self t (set_dataframe self df t w)
                 \<and> frames (mutate_frame df f (set_dataframe self df t w)) a = frames w df
                 \<and> frame_values (mutate_frame df f (set_dataframe self df t w)) a
                    = frame_values w df)
          \<and> (\<forall>obj g. frames (mutate_object obj g (set_dataframe self df t w)) a = frames w df
                 \<and> frame_values (mutate_object obj g (set_dataframe self df t w)) a
                    = frame_values (mutate_object obj g w) df))"
proof -
  let ?w' = "set_dataframe self df t w"
  have slots: "current_dataframe (states ?w' (state self)) =
           Some (if t = ''raw'' \<or> t = ''cleaned'' then Suc (next_frame w) else next_frame w)"
    "t = ''raw'' \<longrightarrow> raw_dataframe (states ?w' (state self)) = Some (next_frame w)"
    "t = ''cleaned'' \<longrightarrow> cleaned_dataframe (states ?w' (state self)) = Some (next_frame w)"
    by (auto simp: set_dataframe_def df_copy_def on_state_def)
  have all_stored: "\<forall>a. get_dataframe self t ?w' = Some a
            \<or> get_dataframe self ''current'' ?w' = Some a \<longrightarrow>
      a \<noteq> df \<and> next_frame w \<le> a \<and> frames ?w' a = frames w df
      \<and> (\<forall>f. get_dataframe self t (mutate_frame df f ?w') = get_dataframe self t ?w'
             \<and> frames (mutate_frame df f ?w') a = frames w df)"
    using assms
    by (auto simp: set_dataframe_def df_copy_def on_state_def get_dataframe_def mutate_frame_def)
  have stored: "a \<noteq> df \<and> next_frame w \<le> a \<and> frames ?w' a = frames w df
      \<and> (\<forall>f. get_dataframe self t (mutate_frame df f ?w') = get_dataframe self t ?w'
             \<and> frames (mutate_frame df f ?w') a = frames w df)"
    if "get_dataframe self t ?w' = Some a \<or> get_dataframe self ''current'' ?w' = Some a"
    for a
    using that all_stored by blast
  have reads: "frame_values ?w' a = frame_values w df
      \<and> (\<forall>f. frame_values (mutate_frame df f ?w') a = frame_values w df)
      \<and> (\<forall>obj g. frames (mutate_object obj g ?w') a = frames w df
             \<and> frame_values (mutate_object obj g ?w') a = frame_values (mutate_object obj g w) df)"
    if "get_dataframe self t ?w' = Some a \<or> get_dataframe self ''current'' ?w' = Some a"
    for a
  proof -
    from stored [OF that]
    have c: "frames ?w' a = frames w df"
      and m: "\<And>f. frames (mutate_frame df f ?w') a = frames w df"
      by simp_all
    have v1: "frame_values ?w' a = frame_values w df"
      using c by (intro frame_values_cong) (simp_all add: objects_set_dataframe)
    have v2: "frame_values (mutate_frame df f ?w') a = frame_values w df" for f
      using m [of f]
      by (intro frame_values_cong) (simp_all add: objects_mutate_frame objects_set_dataframe)
    have f3: "frames (mutate_object obj g ?w') a = frames w df" for obj g
      using c by (simp add: frames_mutate_object)
    have v3: "frame_values (mutate_object obj g ?w') a = frame_values (mutate_object obj g w) df"
      for obj g
      using f3 [of obj g]
      by (intro frame_values_cong)
         (simp_all add: objects_mutate_object_set_dataframe frames_mutate_object)
    from v1 v2 f3 v3 show ?thesis by blast
  qed
  from slots stored reads show ?thesis by blast
qed

theorem set_dataframe_copies_frame_witness:
  "(0::nat) < next_frame loaded_world
   \<and> frames loaded_world 1 \<noteq> frames loaded_world 0
   \<and> get_dataframe \<lparr>session_id = ''s'', state = 0\<rparr> ''raw''
       (set_dataframe \<lparr>session_id = ''s'', state = 0\<rparr> 0 ''raw'' loaded_world) = Some 1
   \<and> frames (mutate_frame 0 drop_all_rows
               (set_dataframe \<lparr>session_id = ''s'', state = 0\<rparr> 0 ''raw'' loaded_world)) 0
       = \<lparr>columns = [PStr ''x''], rows = []\<rparr>
   \<and> frames (mutate_frame 0 drop_all_rows
               (set_dataframe \<lparr>session_id = ''s'', state = 0\<rparr> 0 ''raw'' loaded_world)) 1
       = \<lparr>columns = [PStr ''x''], rows = [[Val (PInt 1)], [Ref 0]]\<rparr>
   \<and> frame_values (mutate_frame 0 drop_all_rows
               (set_dataframe \<lparr>session_id = ''s'', state = 0\<rparr> 0 ''raw'' loaded_world)) 1
       = [[PInt 1], [PList [PInt 1]]]"
proof -
  have h: "(0::nat) < next_frame loaded_world"
    by (simp add: loaded_world_frame)
  have n: "frames loaded_world 1 \<noteq> frames loaded_world 0"
    by (simp add: loaded_world_def)
  have r: "get_dataframe \<lparr>session_id = ''s'', state = 0\<rparr> ''raw''
       (set_dataframe \<lparr>session_id = ''s'', state = 0\<rparr> 0 ''raw'' loaded_world) = Some 1"
    using set_dataframe_copies_frame [OF h, of "\<lparr>session_id = ''s'', state = 0\<rparr>" "''raw''"]
    by (simp add: get_dataframe_def loaded_world_frame)
  have v: "frame_values loaded_world 0 = [[PInt 1], [PList [PInt 1]]]"
    by (simp add: frame_values_def loaded_world_frame)
  have m: "frames (mutate_frame 0 drop_all_rows
               (set_dataframe \<lparr>session_id = ''s'', state = 0\<rparr> 0 ''raw'' loaded_world)) 0
       = \<lparr>columns = [PStr ''x''], rows = []\<rparr>"
    by (simp add: mutate_frame_def drop_all_rows_def set_dataframe_def df_copy_def on_state_def
        loaded_world_frame)
  from set_dataframe_copies_frame [OF h, of "\<lparr>session_id = ''s'', state = 0\<rparr>" "''raw''"]
    h n r v m loaded_world_frame
  show ?thesis by simp
qed

section \<open>Upload and the latest-result caches\<close>

lemma storing_agent_result:
  "fst (storing_agent h b n k w)
     = \<lparr>success = True, message = ''File loaded'', preview = Some [(''rows'', PInt 1)]\<rparr>
   \<and> fst (snd (storing_agent h b n k w)) = h"
  by (simp add: storing_agent_def Let_def)

text \<open>
  C3, as stated: every successful upload, through the web route or the API route,
  clears the cached cleaning summary, query result, chart payloads and report status.
  Through \<open>/api/upload\<close>, with an agent that stores the dataset and reports success,
  the upload succeeds and the cleaning summary cached in the session is still there.
\<close>

theorem api_upload_keeps_caches_counterexample:
  "fst (upload_file storing_agent csv_request cached_world)
     = Inr (Json \<lparr>success = True, message = ''File loaded'', preview = Some [(''rows'', PInt 1)]\<rparr>)
   \<and> cleaning_summary (states (snd (upload_file storing_agent csv_request cached_world)) 0)
     = [(''rows_removed'', PInt 2)]"
  by (simp add: upload_file_def csv_request_def cached_world_def storing_agent_def
      get_session_or_abort_def has_session_def init_def new_state_def initial_world_def
      on_state_def set_dataframe_def df_copy_def update_agent_status_def)

text \<open>
  C3, amended: every successful upload through the web route \<open>/upload\<close> clears the
  cached cleaning summary, last query result, chart payloads and report status of
  the session, whatever the agent did. A successful upload through the API route
  \<open>/api/upload\<close> writes nothing to the session itself: it returns the agent's result
  and leaves the process as the agent left it.
\<close>

theorem upload_cache_clearing:
  "(ensure_web_session uuid c = (session, c1) \<and> upload req = Some (filename, file_bytes)
      \<and> filename \<noteq> []
      \<and> agent session file_bytes filename (length file_bytes) (store c1) = (res, session', w2)
      \<and> success res \<longrightarrow>
      cleaning_summary (states (store (snd (upload_step agent uuid req c))) (state session')) = []
      \<and> last_query_result (states (store (snd (upload_step agent uuid req c))) (state session')) = []
      \<and> chart_payloads (states (store (snd (upload_step agent uuid req c))) (state session')) = []
      \<and> report_status (states (store (snd (upload_step agent uuid req c))) (state session')) = [])
   \<and> (get_session_or_abort req w = Inr (api_session, w1) \<and> upload req = Some (filename, file_bytes)
      \<and> filename \<noteq> []
      \<and> agent api_session file_bytes filename (length file_bytes) w1 = (api_res, api_session', w3)
      \<and> success api_res \<longrightarrow>
      upload_file agent req w = (Inr (Json api_res), w3))"
  by (simp add: upload_step_def upload_file_def flash_def states_on_state)

theorem upload_cache_clearing_witness:
  "cleaning_summary (states cached_world 0) = [(''rows_removed'', PInt 2)]
   \<and> cleaning_summary
       (states (store (snd (upload_step storing_agent ''u'' csv_request
                  \<lparr>store = cached_world, cookie = Some ''s'', flashed = []\<rparr>))) 0) = []
   \<and> snd (upload_file storing_agent csv_request cached_world)
       = snd (snd (storing_agent \<lparr>session_id = ''s'', state = 0\<rparr> ''x'' ''data.csv'' 1 cached_world))"
proof -
  let ?h = "\<lparr>session_id = ''s'', state = 0\<rparr>"
  let ?c = "\<lparr>store = cached_world, cookie = Some ''s'', flashed = []\<rparr>"
  let ?r = "storing_agent ?h ''x'' ''data.csv'' 1 cached_world"
  have e: "ensure_web_session ''u'' ?c = (?h, ?c)"
    by (simp add: ensure_web_session_def has_session_def cached_world_session init_cached_world)
  have g: "get_session_or_abort csv_request cached_world = Inr (?h, cached_world)"
    by (simp add: get_session_or_abort_def csv_request_def has_session_def cached_world_session
        init_cached_world)
  have u: "upload csv_request = Some (''data.csv'', ''x'')" "''data.csv'' \<noteq> []"
    by (simp_all add: csv_request_def)
  have a: "storing_agent ?h ''x'' ''data.csv'' (length ''x'') (store ?c)
             = (fst ?r, fst (snd ?r), snd (snd ?r))"
    "storing_agent ?h ''x'' ''data.csv'' (length ''x'') cached_world
             = (fst ?r, fst (snd ?r), snd (snd ?r))"
    by simp_all
  have s: "success (fst ?r)" "state (fst (snd ?r)) = 0"
    by (simp_all add: storing_agent_result)
  have k: "cleaning_summary (states cached_world 0) = [(''rows_removed'', PInt 2)]"
    by (simp add: cached_world_def init_def new_state_def initial_world_def on_state_def)
  from upload_cache_clearing [where uuid = "''u''" and c = ?c and session = ?h and ?c1.0 = ?c
      and req = csv_request and filename = "''data.csv''" and file_bytes = "''x''"
      and agent = storing_agent and res = "fst ?r" and session' = "fst (snd ?r)"
      and ?w2.0 = "snd (snd ?r)" and w = cached_world and api_session = ?h
      and ?w1.0 = cached_world and api_res = "fst ?r" and api_session' = "fst (snd ?r)"
      and ?w3.0 = "snd (snd ?r)"]
    e g u a s k
  show ?thesis by simp
qed

section \<open>Chart payloads\<close>

lemma serialize_loop_ok:
  assumes "dumps empty_figure = Inr p"
    and "\<forall>ch \<in> set charts. dumps (figure_of ch) = Inl TypeError
                             \<or> (\<exists>js. dumps (figure_of ch) = Inr js)"
  shows "serialize_loop dumps charts serialized =
     Inr (serialized @ map (\<lambda>ch. AList.update ''figure_json''
            (PStr (case dumps (figure_of ch) of Inr js \<Rightarrow> js | Inl e \<Rightarrow> p)) ch) charts)"
  using assms
  by (induction charts arbitrary: serialized) (auto simp: figure_json_of_def)

lemma serialize_loop_fails:
  assumes "\<exists>ch \<in> set charts. \<exists>e. dumps (figure_of ch) = Inl e \<and> e \<noteq> TypeError"
  shows "\<exists>e. serialize_loop dumps charts serialized = Inl e"
  using assms
proof (induction charts arbitrary: serialized)
  case Nil
  then show ?case by simp
next
  case (Cons ch charts)
  show ?case
  proof (cases "figure_json_of dumps (figure_of ch)")
    case (Inl e)
    then show ?thesis by simp
  next
    case (Inr js)
    then have "\<not> (\<exists>e. dumps (figure_of ch) = Inl e \<and> e \<noteq> TypeError)"
      by (auto simp: figure_json_of_def split: sum.splits py_error.splits)
    with Cons.prems have "\<exists>c \<in> set charts. \<exists>e. dumps (figure_of c) = Inl e \<and> e \<noteq> TypeError"
      by auto
    from Cons.IH [OF this] Inr show ?thesis by simp
  qed
qed

text \<open>
  C5, as stated: whenever encoding a figure fails for any reason, the placeholder is
  substituted and the response does not fail. A figure on which the encoder raises
  \<open>ValueError\<close> makes the whole call raise it.
\<close>

theorem value_error_propagates_counterexample:
  "sample_dumps (figure_of [(''title'', PStr ''t''), (''figure'', PObject ''cyclic'')])
     = Inl ValueError
   \<and> serialize_chart_payloads sample_dumps
       (Some [[(''title'', PStr ''t''), (''figure'', PObject ''cyclic'')]]) = Inl ValueError"
  by (simp add: serialize_chart_payloads_def figure_json_of_def figure_of_def sample_dumps_def
      empty_figure_def)

text \<open>
  C5, amended: when no encoding raises anything but \<open>TypeError\<close> (and the placeholder
  encodes), \<open>serialize_chart_payloads\<close> returns one entry for each chart, in order,
  each a new dict equal to the chart's record with \<open>figure_json\<close> set, to the encoded
  figure or, where encoding raised \<open>TypeError\<close>, to the encoded empty-figure
  placeholder. An encoding that raises any other exception fails the whole call.
\<close>

theorem serialize_chart_payloads_type_error_only:
  "(dumps empty_figure = Inr p
      \<and> (\<forall>ch \<in> set charts. dumps (figure_of ch) = Inl TypeError
                              \<or> (\<exists>js. dumps (figure_of ch) = Inr js)) \<longrightarrow>
      serialize_chart_payloads dumps (Some charts) =
        Inr (map (\<lambda>ch. AList.update ''figure_json''
               (PStr (case dumps (figure_of ch) of Inr js \<Rightarrow> js | Inl e \<Rightarrow> p)) ch) charts))
   \<and> ((\<exists>ch \<in> set charts. \<exists>e. dumps (figure_of ch) = Inl e \<and> e \<noteq> TypeError) \<longrightarrow>
      (\<exists>e. serialize_chart_payloads dumps (Some charts) = Inl e))"
  using serialize_loop_ok [of dumps p charts "[]"] serialize_loop_fails [of charts dumps "[]"]
  by (simp add: serialize_chart_payloads_def)

theorem serialize_chart_payloads_type_error_only_witness:
  "serialize_chart_payloads sample_dumps
     (Some [[(''title'', PStr ''a'')], [(''figure'', PObject ''fig''), (''title'', PStr ''b'')]])
   = Inr [[(''title'', PStr ''a''), (''figure_json'', PStr ''{}'')],
          [(''figure'', PObject ''fig''), (''title'', PStr ''b''),
           (''figure_json'', PStr placeholder_json)]]
   \<and> (\<exists>e. serialize_chart_payloads sample_dumps
             (Some [[(''figure'', PObject ''cyclic'')]]) = Inl e)"
proof -
  have p: "sample_dumps empty_figure = Inr placeholder_json"
    by (simp add: sample_dumps_def)
  have f1: "sample_dumps (figure_of [(''title'', PStr ''a'')]) = Inr ''{}''"
    by (simp add: sample_dumps_def figure_of_def empty_figure_def)
  have f2: "sample_dumps (figure_of [(''figure'', PObject ''fig''), (''title'', PStr ''b'')])
      = Inl TypeError"
    by (simp add: sample_dumps_def figure_of_def empty_figure_def)
  have f3: "sample_dumps (figure_of [(''figure'', PObject ''cyclic'')]) = Inl ValueError"
    by (simp add: sample_dumps_def figure_of_def empty_figure_def)
  from serialize_chart_payloads_type_error_only [of sample_dumps placeholder_json
      "[[(''title'', PStr ''a'')], [(''figure'', PObject ''fig''), (''title'', PStr ''b'')]]"]
    serialize_chart_payloads_type_error_only [of sample_dumps placeholder_json
      "[[(''figure'', PObject ''cyclic'')]]"]
    p f1 f2 f3
  show ?thesis by simp
qed

end
